theory Spec2Isabelle
  imports Main "HOL-Library.AList" "HOL-Library.Multiset" "HOL-Library.Sublist"
begin

chapter \<open>The model\<close>

section \<open>Paths\<close>

text \<open>
  The operations of \<^verbatim>\<open>utils/folder_operations.py\<close> work on \<^verbatim>\<open>pathlib.Path\<close> objects.
  A path is modelled by the list of its components below the anchor \<^verbatim>\<open>/\<close>: the path
  \<^verbatim>\<open>/a/b\<close> is \<open>[''a'', ''b'']\<close> and \<^verbatim>\<open>/\<close> itself is \<open>[]\<close>. The operations
  are given absolute paths without \<^verbatim>\<open>..\<close> components (what the directory chooser of
  the GUI produces); only \<open>validate_path\<close> below reads an arbitrary string.
\<close>

type_synonym path = "string list"

definition parent :: "path \<Rightarrow> path" where
  \<comment> \<open>\<^verbatim>\<open>p.parent\<close>; the parent of the anchor is the anchor.\<close>
  "parent p = butlast p"

definition name :: "path \<Rightarrow> string" where
  \<comment> \<open>\<^verbatim>\<open>p.name\<close>; empty for the anchor.\<close>
  "name p = (if p = [] then [] else last p)"

definition nparts :: "path \<Rightarrow> nat" where
  \<comment> \<open>\<^verbatim>\<open>len(p.parts)\<close>: the anchor counts as one part.\<close>
  "nparts p = Suc (length p)"

definition path_str :: "path \<Rightarrow> string" where
  \<comment> \<open>\<^verbatim>\<open>str(p)\<close>\<close>
  "path_str p = (if p = [] then ''/'' else concat (map (\<lambda>s. ''/'' @ s) p))"

section \<open>Exceptions\<close>

datatype exn =
    PermissionError | FileNotFoundError | FileExistsError | NotADirectoryError
  | IsADirectoryError | OSError | ShutilError | ValueError

fun is_os_error :: "exn \<Rightarrow> bool" where
  \<comment> \<open>What \<^verbatim>\<open>except (PermissionError, OSError)\<close> catches: every subclass of
      \<^verbatim>\<open>OSError\<close>, \<^verbatim>\<open>shutil.Error\<close> among them, but not \<^verbatim>\<open>ValueError\<close>.\<close>
  "is_os_error ValueError = False"
| "is_os_error _ = True"

fun exn_str :: "exn \<Rightarrow> string" where
  \<comment> \<open>\<^verbatim>\<open>str(e)\<close>: the text of the operating system is abstracted to the class name.\<close>
  "exn_str PermissionError = ''PermissionError''"
| "exn_str FileNotFoundError = ''FileNotFoundError''"
| "exn_str FileExistsError = ''FileExistsError''"
| "exn_str NotADirectoryError = ''NotADirectoryError''"
| "exn_str IsADirectoryError = ''IsADirectoryError''"
| "exn_str OSError = ''OSError''"
| "exn_str ShutilError = ''Error''"
| "exn_str ValueError = ''ValueError''"

section \<open>The filesystem\<close>

text \<open>
  The filesystem is the state every operation reads and changes. It is a finite table
  from absolute paths to what is stored there; the order of the table is the order in
  which the operating system lists entries. A directory carries two permissions:
  whether its entries may be listed and whether entries may be created or removed in it.
  Symbolic links are not modelled. The search permission of ancestors is left to the
  section on permissions, so \<^verbatim>\<open>exists\<close>, \<^verbatim>\<open>is_dir\<close> and \<^verbatim>\<open>is_file\<close> never raise here.
\<close>

datatype kind = File | Special | Dir (readable: bool) (writable: bool)

type_synonym fs = "(path \<times> kind) list"

definition exists :: "fs \<Rightarrow> path \<Rightarrow> bool" where
  "exists fs p = (map_of fs p \<noteq> None)"

definition is_dir :: "fs \<Rightarrow> path \<Rightarrow> bool" where
  "is_dir fs p = (case map_of fs p of Some (Dir r w) \<Rightarrow> True | _ \<Rightarrow> False)"

definition is_file :: "fs \<Rightarrow> path \<Rightarrow> bool" where
  "is_file fs p = (case map_of fs p of Some File \<Rightarrow> True | _ \<Rightarrow> False)"

definition can_write :: "fs \<Rightarrow> path \<Rightarrow> bool" where
  "can_write fs p = (case map_of fs p of Some (Dir r w) \<Rightarrow> w | _ \<Rightarrow> False)"

definition children :: "fs \<Rightarrow> path \<Rightarrow> path list" where
  "children fs p = remdups (filter (\<lambda>q. q \<noteq> [] \<and> butlast q = p) (map fst fs))"

definition iterdir :: "fs \<Rightarrow> path \<Rightarrow> exn + path list" where
  \<comment> \<open>\<^verbatim>\<open>list(p.iterdir())\<close>\<close>
  "iterdir fs p =
     (case map_of fs p of
        None \<Rightarrow> Inl FileNotFoundError
      | Some (Dir r w) \<Rightarrow> if r then Inr (children fs p) else Inl PermissionError
      | Some _ \<Rightarrow> Inl NotADirectoryError)"

definition rmdir :: "fs \<Rightarrow> path \<Rightarrow> exn + fs" where
  \<comment> \<open>\<^verbatim>\<open>p.rmdir()\<close>\<close>
  "rmdir fs p =
     (case map_of fs p of
        None \<Rightarrow> Inl FileNotFoundError
      | Some (Dir r w) \<Rightarrow>
          if children fs p \<noteq> [] then Inl OSError
          else if p = [] then Inl OSError
          else if \<not> can_write fs (parent p) then Inl PermissionError
          else Inr (AList.delete p fs)
      | Some _ \<Rightarrow> Inl NotADirectoryError)"

definition fs_height :: "fs \<Rightarrow> nat" where
  \<comment> \<open>The length of the longest path of the table; it bounds every traversal.\<close>
  "fs_height fs = foldr (\<lambda>e m. max (length (fst e)) m) fs 0"

lemma fs_height_entry: "(q, k) \<in> set fs \<Longrightarrow> length q \<le> fs_height fs"
  by (induction fs) (auto simp: fs_height_def)

lemma fs_height_ge: "q \<in> fst ` set fs \<Longrightarrow> length q \<le> fs_height fs"
  by (auto dest: fs_height_entry)

lemma children_set: "set (children fs p) = {q \<in> fst ` set fs. q \<noteq> [] \<and> butlast q = p}"
  by (auto simp: children_def)

lemma children_length: "q \<in> set (children fs p) \<Longrightarrow> length q = Suc (length p)"
  by (auto simp: children_set)

lemma children_height: "q \<in> set (children fs p) \<Longrightarrow> length p < fs_height fs"
  using fs_height_ge [of q fs] children_length [of q fs p] by (auto simp: children_set)

lemma iterdir_Inr: "iterdir fs p = Inr items \<Longrightarrow> items = children fs p"
  by (auto simp: iterdir_def split: option.splits kind.splits if_splits)

section \<open>Scanning for empty folder structures\<close>

definition is_folder_empty :: "fs \<Rightarrow> path \<Rightarrow> bool" where
  \<comment> \<open>\<^verbatim>\<open>not any(folder_path.iterdir())\<close>, and \<open>False\<close> when the listing raises.\<close>
  "is_folder_empty fs folder_path =
     (case iterdir fs folder_path of Inl e \<Rightarrow> False | Inr items \<Rightarrow> items = [])"

function scan_empty_folder_structure :: "fs \<Rightarrow> path \<Rightarrow> path list" where
  \<comment> \<open>Listing the directory is the one call that can raise; the handler catches what it
      raises and the scan returns what it has collected, which is nothing.\<close>
  "scan_empty_folder_structure fs root_path =
     (if \<not> exists fs root_path \<or> \<not> is_dir fs root_path then []
      else case iterdir fs root_path of
        Inl e \<Rightarrow> []
      | Inr items \<Rightarrow>
          if items = [] then [root_path]
          else if list_ex (is_file fs) items then
            concat (map (scan_empty_folder_structure fs) (filter (is_dir fs) items))
          else
            concat (map (scan_empty_folder_structure fs) (filter (is_dir fs) items)) @
            (if (\<forall>subdir \<in> set (filter (is_dir fs) items).
                   subdir \<in> set (scan_empty_folder_structure fs subdir))
             then [root_path] else []))"
  by pat_completeness auto

termination
proof (relation "measure (\<lambda>(fs, p). Suc (fs_height fs) - length p)")
  show "wf (measure (\<lambda>(fs, p). Suc (fs_height fs) - length p))" by simp
next
  fix fs :: fs and root_path x2 x
  assume "iterdir fs root_path = Inr x2" "x \<in> set (filter (is_dir fs) x2)"
  then have x: "x \<in> set (children fs root_path)" by (auto dest: iterdir_Inr)
  show "((fs, x), fs, root_path) \<in> measure (\<lambda>(fs, p). Suc (fs_height fs) - length p)"
    using children_length [OF x] children_height [OF x] by simp
next
  fix fs :: fs and root_path x2 x
  assume "iterdir fs root_path = Inr x2" "x \<in> set (filter (is_dir fs) x2)"
  then have x: "x \<in> set (children fs root_path)" by (auto dest: iterdir_Inr)
  show "((fs, x), fs, root_path) \<in> measure (\<lambda>(fs, p). Suc (fs_height fs) - length p)"
    using children_length [OF x] children_height [OF x] by simp
next
  fix fs :: fs and root_path x2 x
  assume "iterdir fs root_path = Inr x2" "x \<in> set (filter (is_dir fs) x2)"
  then have x: "x \<in> set (children fs root_path)" by (auto dest: iterdir_Inr)
  show "((fs, x), fs, root_path) \<in> measure (\<lambda>(fs, p). Suc (fs_height fs) - length p)"
    using children_length [OF x] children_height [OF x] by simp
qed

declare scan_empty_folder_structure.simps [simp del]

section \<open>Loops and handlers\<close>

text \<open>
  A \<^verbatim>\<open>for\<close> loop threads its state through the body; an exception the body does not
  catch ends the loop and the operation. \<open>try_except_os\<close> is
  \<^verbatim>\<open>try: ... except (PermissionError, OSError) as e: ...\<close>. Log records are not part of
  the state.
\<close>

fun for_each :: "('s \<Rightarrow> 'a \<Rightarrow> exn + 's) \<Rightarrow> 's \<Rightarrow> 'a list \<Rightarrow> exn + 's" where
  "for_each body st [] = Inr st"
| "for_each body st (x # xs) =
     (case body st x of Inl e \<Rightarrow> Inl e | Inr st' \<Rightarrow> for_each body st' xs)"

definition try_except_os :: "exn + 'a \<Rightarrow> (exn \<Rightarrow> exn + 'a) \<Rightarrow> exn + 'a" where
  "try_except_os body handler =
     (case body of Inr v \<Rightarrow> Inr v
      | Inl e \<Rightarrow> if is_os_error e then handler e else Inl e)"

section \<open>Deleting empty folders\<close>

definition sorted_deepest_first :: "path list \<Rightarrow> path list" where
  "sorted_deepest_first ps = sort_key (\<lambda>p. - int (nparts p)) ps"

type_synonym batch = "fs \<times> nat \<times> string list"

definition delete_one :: "batch \<Rightarrow> path \<Rightarrow> exn + batch" where
  "delete_one st folder_path =
     (case st of (fs, success_count, errors) \<Rightarrow>
        try_except_os
          (if exists fs folder_path \<and> is_dir fs folder_path then
             if is_folder_empty fs folder_path then
               (case rmdir fs folder_path of
                  Inl e \<Rightarrow> Inl e
                | Inr fs' \<Rightarrow> Inr (fs', success_count + 1, errors))
             else
               Inr (fs, success_count,
                    errors @ [''Folder not empty, skipping: '' @ path_str folder_path])
           else
             Inr (fs, success_count,
                  errors @ [''Path does not exist or is not a directory: '' @ path_str folder_path]))
          (\<lambda>e. Inr (fs, success_count,
                 errors @ [''Error deleting '' @ path_str folder_path @ '': '' @ exn_str e])))"

definition delete_empty_folders :: "fs \<Rightarrow> path list \<Rightarrow> exn + batch" where
  "delete_empty_folders fs folder_paths =
     for_each delete_one (fs, 0, []) (sorted_deepest_first folder_paths)"

section \<open>Creating a folder structure\<close>

text \<open>
  A failed primitive leaves the filesystem as it was. This also holds for
  \<open>mkdir_parents\<close>: it fails before it creates anything, since a directory below a freshly
  created parent can always be created.
\<close>

definition os_mkdir :: "fs \<Rightarrow> path \<Rightarrow> exn + fs" where
  \<comment> \<open>\<^verbatim>\<open>os.mkdir(p)\<close>: the new directory can be listed and written.\<close>
  "os_mkdir fs p =
     (if exists fs p then Inl FileExistsError
      else case map_of fs (parent p) of
        None \<Rightarrow> Inl FileNotFoundError
      | Some (Dir r w) \<Rightarrow>
          if w then Inr (AList.update p (Dir True True) fs) else Inl PermissionError
      | Some _ \<Rightarrow> Inl NotADirectoryError)"

definition mkdir_exist_ok :: "fs \<Rightarrow> path \<Rightarrow> exn + fs" where
  \<comment> \<open>\<^verbatim>\<open>p.mkdir(parents=False, exist_ok=True)\<close>\<close>
  "mkdir_exist_ok fs p =
     (case os_mkdir fs p of
        Inr fs' \<Rightarrow> Inr fs'
      | Inl e \<Rightarrow> if e \<noteq> FileNotFoundError \<and> is_dir fs p then Inr fs else Inl e)"

function mkdir_parents :: "fs \<Rightarrow> path \<Rightarrow> exn + fs" where
  \<comment> \<open>\<^verbatim>\<open>p.mkdir(parents=True, exist_ok=True)\<close>, as \<^verbatim>\<open>pathlib\<close> implements it.\<close>
  "mkdir_parents fs p =
     (case os_mkdir fs p of
        Inr fs' \<Rightarrow> Inr fs'
      | Inl e \<Rightarrow>
          if e = FileNotFoundError then
            if parent p = p then Inl e
            else (case mkdir_parents fs (parent p) of
                    Inl e' \<Rightarrow> Inl e'
                  | Inr fs1 \<Rightarrow> mkdir_exist_ok fs1 p)
          else if is_dir fs p then Inr fs
          else Inl e)"
  by pat_completeness auto

termination
proof (relation "measure (\<lambda>(fs, p). length p)")
  show "wf (measure (\<lambda>(fs, p). length p))" by simp
next
  fix fs :: fs and p :: path and a :: exn
  assume "parent p \<noteq> p"
  then have "p \<noteq> []" by (auto simp: parent_def)
  then show "((fs, parent p), fs, p) \<in> measure (\<lambda>(fs, p). length p)"
    by (simp add: parent_def)
qed

declare mkdir_parents.simps [simp del]

definition relative_to :: "path \<Rightarrow> path \<Rightarrow> exn + path" where
  \<comment> \<open>\<^verbatim>\<open>p.relative_to(q)\<close>: the parts of \<open>p\<close> below \<open>q\<close>, or \<^verbatim>\<open>ValueError\<close>.\<close>
  "relative_to p q = (if prefix q p then Inr (drop (length q) p) else Inl ValueError)"

definition sorted_shallowest_first :: "path list \<Rightarrow> path list" where
  "sorted_shallowest_first ps = sort_key nparts ps"

definition destination_for :: "path list \<Rightarrow> path \<Rightarrow> path \<Rightarrow> exn + path" where
  "destination_for source_paths destination_root source_path =
     (if length source_paths > 0 then
        (case relative_to source_path (parent (hd source_paths)) of
           Inl e \<Rightarrow> Inl e
         | Inr relative_path \<Rightarrow> Inr (destination_root @ relative_path))
      else Inr (destination_root @ [name source_path]))"

definition create_one :: "path list \<Rightarrow> path \<Rightarrow> batch \<Rightarrow> path \<Rightarrow> exn + batch" where
  "create_one source_paths destination_root st source_path =
     (case st of (fs, success_count, errors) \<Rightarrow>
        (case destination_for source_paths destination_root source_path of
           Inl e \<Rightarrow> Inl e
         | Inr destination_path \<Rightarrow>
             try_except_os
               (case mkdir_parents fs destination_path of
                  Inl e \<Rightarrow> Inl e
                | Inr fs' \<Rightarrow> Inr (fs', success_count + 1, errors))
               (\<lambda>e. Inr (fs, success_count,
                      errors @ [''Error creating '' @ path_str destination_path @ '': '' @ exn_str e]))))"

definition create_folder_structure :: "fs \<Rightarrow> path list \<Rightarrow> path \<Rightarrow> exn + batch" where
  "create_folder_structure fs source_paths destination_root =
     (case mkdir_parents fs destination_root of
        Inl e \<Rightarrow>
          if is_os_error e then
            Inr (fs, 0,
                 [''Cannot create destination root '' @ path_str destination_root @ '': '' @ exn_str e])
          else Inl e
      | Inr fs1 \<Rightarrow>
          for_each (create_one source_paths destination_root) (fs1, 0, [])
            (sorted_shallowest_first source_paths))"

section \<open>Permissions\<close>

definition can_list :: "fs \<Rightarrow> path \<Rightarrow> bool" where
  "can_list fs p = (case map_of fs p of Some (Dir r w) \<Rightarrow> r | _ \<Rightarrow> False)"

text \<open>
  A directory may also lack the search permission: its entries can be listed by name,
  but nothing below it can be reached, so every call that asks the operating system
  for the status of a path below it raises \<^verbatim>\<open>PermissionError\<close>. The operations of the
  remaining sections take the list \<open>locked\<close> of the directories that may not be
  searched. The operating system also refuses a name of more than 255 bytes
  (\<^verbatim>\<open>ENAMETOOLONG\<close>, an \<^verbatim>\<open>OSError\<close>); no entry has such a name, so the limit matters for
  a name that is not there. \<^verbatim>\<open>Path.exists\<close>, \<^verbatim>\<open>Path.is_dir\<close> and \<^verbatim>\<open>Path.is_file\<close> answer
  \<open>False\<close> for a path that is not there (\<^verbatim>\<open>ENOENT\<close>, \<^verbatim>\<open>ENOTDIR\<close>) and pass every other
  error on. The limit on the length of a whole path is modelled for \<open>validate_path\<close>
  only, which is the operation that is given a string.
\<close>

definition blocked :: "path list \<Rightarrow> path \<Rightarrow> bool" where
  \<comment> \<open>A directory strictly above \<open>p\<close> may not be searched.\<close>
  "blocked locked p = list_ex (\<lambda>a. strict_prefix a p) locked"

definition name_too_long :: "fs \<Rightarrow> path \<Rightarrow> bool" where
  \<comment> \<open>The deepest ancestor of \<open>p\<close> that is there is a directory, and the component of
      \<open>p\<close> that is looked up in it is longer than 255 bytes.\<close>
  "name_too_long fs p =
     (case rev (filter (exists fs) (prefixes p)) of
        [] \<Rightarrow> False
      | q # qs \<Rightarrow> q \<noteq> p \<and> is_dir fs q \<and> 255 < length (p ! length q))"

definition reach_error :: "fs \<Rightarrow> path list \<Rightarrow> path \<Rightarrow> exn option" where
  \<comment> \<open>What stops the operating system on the way to \<open>p\<close>, other than \<open>p\<close> not being there.\<close>
  "reach_error fs locked p =
     (if blocked locked p then Some PermissionError
      else if \<not> exists fs p \<and> name_too_long fs p then Some OSError
      else None)"

definition os_stat :: "fs \<Rightarrow> path list \<Rightarrow> path \<Rightarrow> exn + kind option" where
  \<comment> \<open>The status of \<open>p\<close> as \<^verbatim>\<open>pathlib\<close> reads it: \<open>None\<close> for a path that is not there.\<close>
  "os_stat fs locked p =
     (case reach_error fs locked p of Some e \<Rightarrow> Inl e | None \<Rightarrow> Inr (map_of fs p))"

definition try_exists :: "fs \<Rightarrow> path list \<Rightarrow> path \<Rightarrow> exn + bool" where
  \<comment> \<open>\<^verbatim>\<open>p.exists()\<close>\<close>
  "try_exists fs locked p =
     (case os_stat fs locked p of Inl e \<Rightarrow> Inl e | Inr k \<Rightarrow> Inr (k \<noteq> None))"

definition try_is_dir :: "fs \<Rightarrow> path list \<Rightarrow> path \<Rightarrow> exn + bool" where
  \<comment> \<open>\<^verbatim>\<open>p.is_dir()\<close>\<close>
  "try_is_dir fs locked p =
     (case os_stat fs locked p of
        Inl e \<Rightarrow> Inl e
      | Inr k \<Rightarrow> Inr (case k of Some (Dir r w) \<Rightarrow> True | _ \<Rightarrow> False))"

definition try_is_file :: "fs \<Rightarrow> path list \<Rightarrow> path \<Rightarrow> exn + bool" where
  \<comment> \<open>\<^verbatim>\<open>p.is_file()\<close>\<close>
  "try_is_file fs locked p =
     (case os_stat fs locked p of Inl e \<Rightarrow> Inl e | Inr k \<Rightarrow> Inr (k = Some File))"

definition scandir :: "fs \<Rightarrow> path list \<Rightarrow> path \<Rightarrow> exn + path list" where
  \<comment> \<open>Listing the directory \<open>p\<close>, which must be reached first.\<close>
  "scandir fs locked p =
     (case os_stat fs locked p of Inl e \<Rightarrow> Inl e | Inr k \<Rightarrow> iterdir fs p)"

lemma try_exists_True: "try_exists fs locked p = Inr True \<Longrightarrow> exists fs p"
  by (auto simp: try_exists_def os_stat_def exists_def split: option.splits)

lemma scandir_Inr: "scandir fs locked p = Inr items \<Longrightarrow> items = children fs p"
  by (auto simp: scandir_def dest: iterdir_Inr split: sum.splits)

fun collect :: "('a \<Rightarrow> exn + bool) \<Rightarrow> 'a list \<Rightarrow> 'a list \<Rightarrow> exn \<times> 'a list + 'a list" where
  \<comment> \<open>\<^verbatim>\<open>for x in xs: if test(x): acc.append(x)\<close>; when the test raises, the loop ends
      with the exception and what it has appended so far.\<close>
  "collect test acc [] = Inr acc"
| "collect test acc (x # xs) =
     (case test x of
        Inl e \<Rightarrow> Inl (e, acc)
      | Inr b \<Rightarrow> collect test (if b then acc @ [x] else acc) xs)"

section \<open>Scanning a folder structure\<close>

definition searchable :: "path list \<Rightarrow> path \<Rightarrow> bool" where
  \<comment> \<open>Every directory above, at and below \<open>p\<close> may be searched.\<close>
  "searchable locked p = list_all (\<lambda>a. \<not> prefix a p \<and> \<not> prefix p a) locked"

function rglob :: "fs \<Rightarrow> path list \<Rightarrow> path \<Rightarrow> path list" where
  \<comment> \<open>\<^verbatim>\<open>list(p.rglob('*'))\<close>: the entries of \<open>p\<close>, then the walk of each subdirectory.
      \<^verbatim>\<open>pathlib\<close> tells the subdirectories from the listing itself and passes over a
      directory it is not permitted to list.\<close>
  "rglob fs locked p =
     (case scandir fs locked p of
        Inl e \<Rightarrow> []
      | Inr items \<Rightarrow> items @ concat (map (rglob fs locked) (filter (is_dir fs) items)))"
  by pat_completeness auto

termination
proof (relation "measure (\<lambda>(fs, locked, p). Suc (fs_height fs) - length p)")
  show "wf (measure (\<lambda>(fs, locked, p). Suc (fs_height fs) - length p))" by simp
next
  fix fs :: fs and locked :: "path list" and p items x
  assume "scandir fs locked p = Inr items" "x \<in> set (filter (is_dir fs) items)"
  then have x: "x \<in> set (children fs p)"
    by (auto dest: scandir_Inr)
  show "((fs, locked, x), fs, locked, p)
      \<in> measure (\<lambda>(fs, locked, p). Suc (fs_height fs) - length p)"
    using children_length [OF x] children_height [OF x] by simp
qed

declare rglob.simps [simp del]

definition scan_folder_structure :: "fs \<Rightarrow> path list \<Rightarrow> path \<Rightarrow> exn + path list" where
  \<comment> \<open>The two checks at the head stand outside the \<^verbatim>\<open>try\<close>: what they raise leaves the
      function. Inside, \<^verbatim>\<open>item.is_dir()\<close> can raise; the handler then returns the
      directories found so far, and the root is not inserted.\<close>
  "scan_folder_structure fs locked source_path =
     (case try_exists fs locked source_path of
        Inl e \<Rightarrow> Inl e
      | Inr there \<Rightarrow>
          if \<not> there then Inr []
          else case try_is_dir fs locked source_path of
            Inl e \<Rightarrow> Inl e
          | Inr dir \<Rightarrow>
              if \<not> dir then Inr []
              else case collect (try_is_dir fs locked) [] (rglob fs locked source_path) of
                Inl (e, directories) \<Rightarrow> if is_os_error e then Inr directories else Inl e
              | Inr directories \<Rightarrow>
                  Inr (if source_path \<notin> set directories then source_path # directories
                       else directories))"

section \<open>Validating a path string\<close>

text \<open>
  \<open>validate_path\<close> is the one operation that reads a string typed by the user. A Python
  string is a sequence of code points, integers from 0 to \<open>0x10FFFF\<close>. The string may name a
  relative path and may hold \<^verbatim>\<open>..\<close> components, so its path object keeps its root and
  its components as written; the operating system resolves it from the current working
  directory, on the bytes of its file-system encoding.
\<close>

type_synonym str = "int list"

definition literal :: "string \<Rightarrow> str" where
  \<comment> \<open>The string written with the given characters, all below \<open>U+0100\<close>.\<close>
  "literal s = map of_char s"

definition isspace :: "int \<Rightarrow> bool" where
  \<comment> \<open>The code points \<^verbatim>\<open>str.strip()\<close> removes.\<close>
  "isspace c =
     ((0x09 \<le> c \<and> c \<le> 0x0D) \<or> (0x1C \<le> c \<and> c \<le> 0x20) \<or> c = 0x85 \<or> c = 0xA0
      \<or> c = 0x1680 \<or> (0x2000 \<le> c \<and> c \<le> 0x200A) \<or> c = 0x2028 \<or> c = 0x2029
      \<or> c = 0x202F \<or> c = 0x205F \<or> c = 0x3000)"

definition strip :: "str \<Rightarrow> str" where
  "strip s = rev (dropWhile isspace (rev (dropWhile isspace s)))"

fun split_on :: "'a \<Rightarrow> 'a list \<Rightarrow> 'a list list" where
  "split_on c [] = [[]]"
| "split_on c (x # xs) =
     (if x = c then [] # split_on c xs
      else case split_on c xs of
             [] \<Rightarrow> [[x]]
           | w # ws \<Rightarrow> (x # w) # ws)"

datatype pure_path = PurePath (path_root: string) (segments: "str list")

definition splitroot :: "str \<Rightarrow> string" where
  \<comment> \<open>The root of a POSIX path: exactly two leading slashes are kept, any other number
      of them is one.\<close>
  "splitroot s =
     (if s = [] \<or> hd s \<noteq> 0x2F then []
      else if length (takeWhile (\<lambda>c. c = 0x2F) s) = 2 then ''//'' else ''/'')"

definition Path :: "str \<Rightarrow> pure_path" where
  \<comment> \<open>\<^verbatim>\<open>Path(s)\<close>: empty and \<^verbatim>\<open>.\<close> components are dropped, \<^verbatim>\<open>..\<close> components are kept;
      \<^verbatim>\<open>Path()\<close> is \<open>Path []\<close>.\<close>
  "Path s = PurePath (splitroot s)
                     (filter (\<lambda>seg. seg \<noteq> [] \<and> seg \<noteq> [0x2E]) (split_on 0x2F s))"

definition utf8 :: "int \<Rightarrow> exn + string" where
  \<comment> \<open>The file-system encoding of one code point: UTF-8, a surrogate between \<open>U+DC80\<close>
      and \<open>U+DCFF\<close> standing for the byte it escapes. Any other surrogate raises
      \<^verbatim>\<open>UnicodeEncodeError\<close>, which is a \<^verbatim>\<open>ValueError\<close>.\<close>
  "utf8 c =
     (if c < 0x80 then Inr [char_of c]
      else if c < 0x800 then Inr [char_of (0xC0 + c div 0x40), char_of (0x80 + c mod 0x40)]
      else if 0xDC80 \<le> c \<and> c \<le> 0xDCFF then Inr [char_of (c - 0xDC00)]
      else if 0xD800 \<le> c \<and> c \<le> 0xDFFF then Inl ValueError
      else if c < 0x10000 then
        Inr [char_of (0xE0 + c div 0x1000), char_of (0x80 + c div 0x40 mod 0x40),
             char_of (0x80 + c mod 0x40)]
      else
        Inr [char_of (0xF0 + c div 0x40000), char_of (0x80 + c div 0x1000 mod 0x40),
             char_of (0x80 + c div 0x40 mod 0x40), char_of (0x80 + c mod 0x40)])"

fun fsencode :: "str \<Rightarrow> exn + string" where
  \<comment> \<open>The bytes handed to the operating system; a string that holds the code point 0
      raises \<^verbatim>\<open>ValueError\<close> (embedded null byte).\<close>
  "fsencode [] = Inr []"
| "fsencode (c # cs) =
     (if c = 0 then Inl ValueError
      else case utf8 c of
        Inl e \<Rightarrow> Inl e
      | Inr b \<Rightarrow> (case fsencode cs of Inl e \<Rightarrow> Inl e | Inr bs \<Rightarrow> Inr (b @ bs)))"

fun fsencode_all :: "str list \<Rightarrow> exn + string list" where
  "fsencode_all [] = Inr []"
| "fsencode_all (s # ss) =
     (case fsencode s of
        Inl e \<Rightarrow> Inl e
      | Inr b \<Rightarrow> (case fsencode_all ss of Inl e \<Rightarrow> Inl e | Inr bs \<Rightarrow> Inr (b # bs)))"

definition rendered_length :: "string \<Rightarrow> string list \<Rightarrow> nat" where
  \<comment> \<open>The number of bytes of \<^verbatim>\<open>str(path)\<close>: the root, the components and a slash between
      two components; the path without root and components is \<^verbatim>\<open>.\<close>\<close>
  "rendered_length rt segs =
     (if rt = [] \<and> segs = [] then 1
      else length rt + sum_list (map length segs) + (length segs - 1))"

fun walk :: "fs \<Rightarrow> path list \<Rightarrow> path \<Rightarrow> string list \<Rightarrow> exn + path" where
  \<comment> \<open>Path resolution of the operating system, one component at a time: what was reached
      must be a directory (\<^verbatim>\<open>ENOTDIR\<close>) that may be searched (\<^verbatim>\<open>EACCES\<close>), and the
      component an entry of it; one that is not is too long (\<^verbatim>\<open>ENAMETOOLONG\<close>) or
      missing (\<^verbatim>\<open>ENOENT\<close>).\<close>
  "walk fs locked cur [] = (if exists fs cur then Inr cur else Inl FileNotFoundError)"
| "walk fs locked cur (seg # segs) =
     (if \<not> exists fs cur then Inl FileNotFoundError
      else if \<not> is_dir fs cur then Inl NotADirectoryError
      else if cur \<in> set locked then Inl PermissionError
      else if seg = ''..'' then walk fs locked (butlast cur) segs
      else if exists fs (cur @ [seg]) then walk fs locked (cur @ [seg]) segs
      else if 255 < length seg then Inl OSError
      else Inl FileNotFoundError)"

definition locate :: "fs \<Rightarrow> path list \<Rightarrow> path \<Rightarrow> pure_path \<Rightarrow> exn + path" where
  \<comment> \<open>Where a path object leads to, from the working directory \<open>cwd\<close>. The string is
      encoded before the operating system sees it; a path of more than 4095 bytes is
      refused (\<^verbatim>\<open>ENAMETOOLONG\<close>).\<close>
  "locate fs locked cwd p =
     (case fsencode_all (segments p) of
        Inl e \<Rightarrow> Inl e
      | Inr segs \<Rightarrow>
          if 4095 < rendered_length (path_root p) segs then Inl OSError
          else walk fs locked (if path_root p = [] then cwd else []) segs)"

definition ignore_error :: "exn \<Rightarrow> bool" where
  \<comment> \<open>The errors \<^verbatim>\<open>pathlib\<close> takes for absence: \<^verbatim>\<open>ENOENT\<close> and \<^verbatim>\<open>ENOTDIR\<close> (and
      \<^verbatim>\<open>EBADF\<close>, \<^verbatim>\<open>ELOOP\<close>, which do not arise here), and \<^verbatim>\<open>ValueError\<close>.\<close>
  "ignore_error e = (e = FileNotFoundError \<or> e = NotADirectoryError \<or> e = ValueError)"

definition path_exists :: "fs \<Rightarrow> path list \<Rightarrow> path \<Rightarrow> pure_path \<Rightarrow> exn + bool" where
  \<comment> \<open>\<^verbatim>\<open>path.exists()\<close>\<close>
  "path_exists fs locked cwd p =
     (case locate fs locked cwd p of
        Inl e \<Rightarrow> if ignore_error e then Inr False else Inl e
      | Inr q \<Rightarrow> Inr True)"

definition path_is_dir :: "fs \<Rightarrow> path list \<Rightarrow> path \<Rightarrow> pure_path \<Rightarrow> exn + bool" where
  \<comment> \<open>\<^verbatim>\<open>path.is_dir()\<close>\<close>
  "path_is_dir fs locked cwd p =
     (case locate fs locked cwd p of
        Inl e \<Rightarrow> if ignore_error e then Inr False else Inl e
      | Inr q \<Rightarrow> Inr (is_dir fs q))"

definition validate_path ::
  "fs \<Rightarrow> path list \<Rightarrow> path \<Rightarrow> str \<Rightarrow> bool \<times> string \<times> pure_path" where
  \<comment> \<open>The result is \<^verbatim>\<open>(is_valid, error_message, path_object)\<close>. Whatever the body
      raises is caught by \<^verbatim>\<open>except Exception\<close>.\<close>
  "validate_path fs locked cwd path_string =
     (if path_string = [] \<or> strip path_string = [] then
        (False, ''Path cannot be empty'', Path [])
      else
        let path = Path (strip path_string) in
        case path_exists fs locked cwd path of
          Inl e \<Rightarrow> (False, ''Invalid path: '' @ exn_str e, Path [])
        | Inr there \<Rightarrow>
            if \<not> there then (False, ''Path does not exist'', path)
            else case path_is_dir fs locked cwd path of
              Inl e \<Rightarrow> (False, ''Invalid path: '' @ exn_str e, Path [])
            | Inr dir \<Rightarrow>
                if \<not> dir then (False, ''Path is not a directory'', path)
                else (True, [], path))"



definition canonical :: "fs \<Rightarrow> path list \<Rightarrow> path \<Rightarrow> pure_path \<Rightarrow> pure_path \<Rightarrow> bool" where
  \<comment> \<open>Modelled from the spec: \<open>c\<close> is the canonical form of \<open>p\<close> when it is absolute, free
      of \<^verbatim>\<open>..\<close>, and spells the entry that \<open>p\<close> leads to.\<close>
  "canonical fs locked cwd p c =
     (path_root c = ''/'' \<and>
      (case (locate fs locked cwd p, fsencode_all (segments c)) of
         (Inr q, Inr segs) \<Rightarrow> segs = q
       | _ \<Rightarrow> False))"

section \<open>Example filesystems\<close>


definition fs_xyz :: fs where
  \<comment> \<open>The scenario of the specification: \<^verbatim>\<open>/R\<close> holds exactly \<^verbatim>\<open>x\<close>, which holds the
      empty directory \<^verbatim>\<open>y\<close> and the directory \<^verbatim>\<open>z\<close> with the one file \<^verbatim>\<open>f.txt\<close>.\<close>
  "fs_xyz =
     [([], Dir True True), ([''R''], Dir True True), ([''R'', ''x''], Dir True True),
      ([''R'', ''x'', ''y''], Dir True True), ([''R'', ''x'', ''z''], Dir True True),
      ([''R'', ''x'', ''z'', ''f.txt''], File)]"

definition fs_ro :: fs where
  \<comment> \<open>\<^verbatim>\<open>/a\<close> holds an empty directory and a file; \<^verbatim>\<open>/p\<close> does not allow removing entries.\<close>
  "fs_ro =
     [([], Dir True True), ([''a''], Dir True True), ([''a'', ''b''], Dir True True),
      ([''a'', ''f''], File), ([''p''], Dir True False), ([''p'', ''q''], Dir True True)]"

definition fs_src :: fs where
  \<comment> \<open>A source tree under \<^verbatim>\<open>/a\<close>, a second tree under \<^verbatim>\<open>/c\<close>, a directory \<^verbatim>\<open>/ro\<close> in
      which nothing can be created, and a file.\<close>
  "fs_src =
     [([], Dir True True), ([''a''], Dir True True), ([''a'', ''b''], Dir True True),
      ([''a'', ''b'', ''c''], Dir True True), ([''a'', ''b'', ''f''], File),
      ([''c''], Dir True True), ([''c'', ''d''], Dir True True),
      ([''ro''], Dir True False), ([''file''], File)]"


definition fs_tree :: fs where
  \<comment> \<open>As \<open>fs_hidden\<close>, but \<^verbatim>\<open>/s/u\<close> can be listed.\<close>
  "fs_tree =
     [([], Dir True True), ([''s''], Dir True True), ([''s'', ''u''], Dir True True),
      ([''s'', ''u'', ''v''], Dir True True), ([''s'', ''w''], Dir True True),
      ([''s'', ''g''], File), ([''s'', ''w'', ''k''], Dir True True),
      ([''s'', ''w'', ''h''], File)]"

definition fs_home :: fs where
  \<comment> \<open>\<^verbatim>\<open>/home\<close>, the working directory of the examples, holds a directory and a file.\<close>
  "fs_home =
     [([], Dir True True), ([''home''], Dir True True),
      ([''home'', ''docs''], Dir True True), ([''home'', ''notes.txt''], File)]"

text \<open>The definitions that evaluate a query on a concrete filesystem.\<close>

lemmas fs_ops = exists_def is_dir_def is_file_def can_write_def iterdir_def children_def

chapter \<open>Properties\<close>

section \<open>Facts about the filesystem\<close>

lemma exists_iff: "exists fs p \<longleftrightarrow> p \<in> fst ` set fs"
  by (simp add: exists_def map_of_eq_None_iff)


lemma is_dir_iff: "is_dir fs p \<longleftrightarrow> (\<exists>r w. map_of fs p = Some (Dir r w))"
  by (auto simp: is_dir_def split: option.splits kind.splits)

lemma is_file_iff: "is_file fs p \<longleftrightarrow> map_of fs p = Some File"
  by (auto simp: is_file_def split: option.splits kind.splits)


lemma can_list_iff: "can_list fs q \<longleftrightarrow> (\<exists>w. map_of fs q = Some (Dir True w))"
  by (auto simp: can_list_def split: option.splits kind.splits)

lemma can_write_iff: "can_write fs q \<longleftrightarrow> (\<exists>r. map_of fs q = Some (Dir r True))"
  by (auto simp: can_write_def split: option.splits kind.splits)

lemma parent_snoc: "parent (p @ [x]) = p"
  by (simp add: parent_def)



lemma children_iff: "q \<in> set (children fs p) \<longleftrightarrow> exists fs q \<and> q \<noteq> [] \<and> parent q = p"
  by (auto simp: children_set exists_iff parent_def)

text \<open>Whatever the primitives raise is an error of the operating system, which the
  handlers of the operations catch.\<close>

lemma iterdir_os_error: "iterdir fs p = Inl e \<Longrightarrow> is_os_error e"
  by (auto simp: iterdir_def split: option.splits kind.splits if_splits)


lemma iterdir_can_list: "is_dir fs p \<Longrightarrow> can_list fs p \<Longrightarrow> iterdir fs p = Inr (children fs p)"
  by (auto simp: is_dir_def can_list_def iterdir_def split: option.splits kind.splits)

lemma is_folder_empty_iff:
  "is_folder_empty fs d \<longleftrightarrow> is_dir fs d \<and> can_list fs d \<and> children fs d = []"
  by (auto simp: is_folder_empty_def iterdir_def is_dir_def can_list_def
      split: option.splits kind.splits)

lemma rmdir_os_error: "rmdir fs p = Inl e \<Longrightarrow> is_os_error e"
  by (auto simp: rmdir_def split: option.splits kind.splits if_splits)

lemma rmdir_Inr_iff:
  "rmdir fs p = Inr fs' \<longleftrightarrow>
     is_dir fs p \<and> children fs p = [] \<and> p \<noteq> [] \<and> can_write fs (parent p)
     \<and> fs' = AList.delete p fs"
  by (auto simp: rmdir_def is_dir_def split: option.splits kind.splits)

lemma exists_delete: "exists (AList.delete x fs) q \<longleftrightarrow> exists fs q \<and> q \<noteq> x"
  by (auto simp: exists_def delete_conv)

section \<open>Loops that remove directories\<close>

text \<open>
  The loop of \<open>delete_empty_folders\<close> and the prune loop of \<open>flatten_to_root\<close> have bodies
  of the same kind: a step leaves the filesystem as it is or removes the visited path,
  which then is a directory without entries. Such a loop never raises, creates and
  changes nothing, and whatever it removes is a visited directory of which no entry is
  left.
\<close>

lemma removal_loop_only_empty:
  assumes step: "\<And>fs st x. \<exists>fs' st'. body (fs, st) x = Inr (fs', st')
     \<and> (fs' = fs \<or> (is_dir fs x \<and> children fs x = [] \<and> fs' = AList.delete x fs))"
  shows "\<exists>fs' st'. for_each body (fs, st) ds = Inr (fs', st')
     \<and> (\<forall>q. exists fs' q \<longrightarrow> map_of fs' q = map_of fs q)
     \<and> (\<forall>q. exists fs q \<and> \<not> exists fs' q \<longrightarrow> q \<in> set ds \<and> is_dir fs q \<and> children fs' q = [])"
proof (induction ds arbitrary: fs st)
  case Nil
  show ?case by simp
next
  case (Cons x ds)
  from step [of fs st x]
  obtain fs1 st1 where 1: "body (fs, st) x = Inr (fs1, st1)"
    and 2: "fs1 = fs \<or> (is_dir fs x \<and> children fs x = [] \<and> fs1 = AList.delete x fs)"
    by blast
  from Cons.IH [of fs1 st1]
  obtain fs' st' where 3: "for_each body (fs1, st1) ds = Inr (fs', st')"
    and 4: "\<forall>q. exists fs' q \<longrightarrow> map_of fs' q = map_of fs1 q"
    and 5: "\<forall>q. exists fs1 q \<and> \<not> exists fs' q \<longrightarrow> q \<in> set ds \<and> is_dir fs1 q \<and> children fs' q = []"
    by blast
  have sub1: "exists fs1 q \<Longrightarrow> map_of fs1 q = map_of fs q" for q
    using 2 by (auto simp: exists_delete delete_conv)
  have ex1: "exists fs1 q \<Longrightarrow> exists fs q" for q
    using 2 by (auto simp: exists_delete)
  have ex': "exists fs' q \<Longrightarrow> exists fs1 q" for q
    using 4 by (auto simp: exists_def)
  have a: "\<forall>q. exists fs' q \<longrightarrow> map_of fs' q = map_of fs q"
    using 4 sub1 ex' by auto
  have b: "q \<in> set (x # ds) \<and> is_dir fs q \<and> children fs' q = []"
    if q: "exists fs q" "\<not> exists fs' q" for q
  proof (cases "exists fs1 q")
    case True
    with 5 q(2) have "q \<in> set ds" "is_dir fs1 q" "children fs' q = []" by auto
    moreover from \<open>is_dir fs1 q\<close> sub1 [OF True] have "is_dir fs q" by (simp add: is_dir_iff)
    ultimately show ?thesis by simp
  next
    case False
    with 2 q(1) have x: "q = x" "is_dir fs x" "children fs x = []"
      by (auto simp: exists_delete)
    have "children fs' q = []"
    proof (rule ccontr)
      assume "children fs' q \<noteq> []"
      then obtain c where "c \<in> set (children fs' q)" by (cases "children fs' q") auto
      then have "exists fs' c" "c \<noteq> []" "parent c = q" by (simp_all add: children_iff)
      then have "c \<in> set (children fs x)" using ex' ex1 x(1) by (simp add: children_iff)
      with x(3) show False by simp
    qed
    with x show ?thesis by simp
  qed
  from 1 3 a b show ?case by auto
qed

section \<open>The scan for empty folder structures\<close>





text \<open>
  Claim C2. On the filesystem in which \<open>R\<close> holds exactly \<open>R/x\<close>, with the empty
  directory \<open>R/x/y\<close> and the directory \<open>R/x/z\<close> holding the file \<open>f.txt\<close>, the scan of
  \<open>R\<close> returns the one-element list \<open>[R/x/y]\<close>.
\<close>

theorem scan_scenario_xyz:
  "scan_empty_folder_structure fs_xyz [''R''] = [[''R'', ''x'', ''y'']]"
  by (simp add: scan_empty_folder_structure.simps fs_xyz_def fs_ops)

theorem scan_scenario_xyz_witness:
  "exists fs_xyz [''R''] \<and> is_dir fs_xyz [''R'']
   \<and> is_file fs_xyz [''R'', ''x'', ''z'', ''f.txt'']
   \<and> [''R''] \<notin> set (scan_empty_folder_structure fs_xyz [''R''])
   \<and> [''R'', ''x''] \<notin> set (scan_empty_folder_structure fs_xyz [''R''])
   \<and> [''R'', ''x'', ''z''] \<notin> set (scan_empty_folder_structure fs_xyz [''R''])
   \<and> [''R'', ''x'', ''y''] \<in> set (scan_empty_folder_structure fs_xyz [''R''])"
proof -
  have "exists fs_xyz [''R''] \<and> is_dir fs_xyz [''R'']
        \<and> is_file fs_xyz [''R'', ''x'', ''z'', ''f.txt'']"
    by (simp add: fs_xyz_def fs_ops)
  then show ?thesis using scan_scenario_xyz by simp
qed

section \<open>The batch deletion\<close>

lemma delete_one_step:
  "(exists fs0 p \<and> is_dir fs0 p \<and> iterdir fs0 p = Inr [] \<and>
      (\<exists>fs1. rmdir fs0 p = Inr fs1 \<and> delete_one (fs0, n, errs) p = Inr (fs1, n + 1, errs)))
   \<or> (\<exists>msg. delete_one (fs0, n, errs) p = Inr (fs0, n, errs @ [msg]))"
  by (auto simp: delete_one_def try_except_os_def is_folder_empty_def
      split: sum.splits dest: rmdir_os_error)

lemma delete_loop_total:
  "\<exists>fs' n' errs'. for_each delete_one (fs, n, errs) qs = Inr (fs', n', errs')
      \<and> n' + length errs' = n + length errs + length qs"
proof (induction qs arbitrary: fs n errs)
  case Nil
  show ?case by simp
next
  case (Cons q qs)
  from delete_one_step [of fs q n errs]
  obtain fs1 n1 errs1 where 1: "delete_one (fs, n, errs) q = Inr (fs1, n1, errs1)"
    and 2: "n1 + length errs1 = n + length errs + 1"
    by auto
  from Cons.IH [of fs1 n1 errs1] 1 2 show ?case by auto
qed

lemma sorted_deepest_first_mset: "mset (sorted_deepest_first ps) = mset ps"
  by (simp add: sorted_deepest_first_def)

lemma sorted_deepest_first_sorted:
  "sorted_wrt (\<lambda>a b. nparts b \<le> nparts a) (sorted_deepest_first ps)"
proof -
  have "sorted (map (\<lambda>p. - int (nparts p)) (sorted_deepest_first ps))"
    by (simp add: sorted_deepest_first_def)
  then show ?thesis
    by (simp add: sorted_map sorted_wrt_iff_nth_less)
qed

lemma deeper_not_ancestor: "nparts b \<le> nparts a \<Longrightarrow> \<not> strict_prefix a b"
  using prefix_length_less [of a b] by (auto simp: nparts_def)

text \<open>
  Claim C5. \<open>delete_empty_folders\<close> runs its loop body over a rearrangement of the input
  that is ordered by descending number of path parts, so that no path is visited before
  a path below it. In every state the loop body either finds that the path exists, is a
  directory and lists zero entries, removes it and counts one success, or leaves the
  filesystem and the count as they are and appends exactly one error message. The batch
  never raises: it always returns the success count and the list of error messages.
\<close>

theorem delete_empty_folders_batch:
  "(\<exists>qs. mset qs = mset folder_paths
         \<and> sorted_wrt (\<lambda>a b. nparts b \<le> nparts a) qs
         \<and> sorted_wrt (\<lambda>a b. \<not> strict_prefix a b) qs
         \<and> delete_empty_folders fs folder_paths = for_each delete_one (fs, 0, []) qs)
   \<and> (\<forall>fs0 n errs p.
         (exists fs0 p \<and> is_dir fs0 p \<and> iterdir fs0 p = Inr [] \<and>
            (\<exists>fs1. rmdir fs0 p = Inr fs1 \<and>
                   delete_one (fs0, n, errs) p = Inr (fs1, n + 1, errs)))
         \<or> (\<exists>msg. delete_one (fs0, n, errs) p = Inr (fs0, n, errs @ [msg])))
   \<and> (\<exists>fs' n errs. delete_empty_folders fs folder_paths = Inr (fs', n, errs))"
proof -
  let ?qs = "sorted_deepest_first folder_paths"
  have "sorted_wrt (\<lambda>a b. \<not> strict_prefix a b) ?qs"
    using sorted_deepest_first_sorted [of folder_paths]
    by (rule sorted_wrt_mono_rel [rotated]) (simp add: deeper_not_ancestor)
  then have "\<exists>qs. mset qs = mset folder_paths
         \<and> sorted_wrt (\<lambda>a b. nparts b \<le> nparts a) qs
         \<and> sorted_wrt (\<lambda>a b. \<not> strict_prefix a b) qs
         \<and> delete_empty_folders fs folder_paths = for_each delete_one (fs, 0, []) qs"
    using sorted_deepest_first_mset sorted_deepest_first_sorted
    by (intro exI [of _ ?qs]) (simp add: delete_empty_folders_def)
  moreover have "\<exists>fs' n errs. delete_empty_folders fs folder_paths = Inr (fs', n, errs)"
    using delete_loop_total [of fs 0 "[]" ?qs] by (auto simp: delete_empty_folders_def)
  ultimately show ?thesis using delete_one_step by blast
qed

text \<open>
  Claim C10. \<open>delete_empty_folders\<close> accounts for every input path exactly once: the success
  count plus the number of error messages is the number of input paths.
\<close>

theorem delete_empty_folders_accounts:
  "\<exists>fs' success_count errors.
     delete_empty_folders fs folder_paths = Inr (fs', success_count, errors)
     \<and> success_count + length errors = length folder_paths"
proof -
  have "length (sorted_deepest_first folder_paths) = length folder_paths"
    by (simp add: sorted_deepest_first_def)
  then show ?thesis
    using delete_loop_total [of fs 0 "[]" "sorted_deepest_first folder_paths"]
    by (auto simp: delete_empty_folders_def)
qed

theorem delete_empty_folders_batch_witness:
  "delete_empty_folders fs_ro [[''a''], [''p'', ''q''], [''a'', ''b''], [''zz''], [''a'', ''f'']] =
     Inr ([([], Dir True True), ([''a''], Dir True True), ([''a'', ''f''], File),
           ([''p''], Dir True False), ([''p'', ''q''], Dir True True)],
          1,
          [''Error deleting /p/q: PermissionError'',
           ''Path does not exist or is not a directory: /a/f'',
           ''Folder not empty, skipping: /a'',
           ''Path does not exist or is not a directory: /zz''])
   \<and> (\<exists>qs. mset qs = mset [[''a''], [''p'', ''q''], [''a'', ''b''], [''zz''], [''a'', ''f'']]
         \<and> sorted_wrt (\<lambda>a b. nparts b \<le> nparts a) qs
         \<and> delete_empty_folders fs_ro [[''a''], [''p'', ''q''], [''a'', ''b''], [''zz''], [''a'', ''f'']]
             = for_each delete_one (fs_ro, 0, []) qs)"
proof -
  have "delete_empty_folders fs_ro [[''a''], [''p'', ''q''], [''a'', ''b''], [''zz''], [''a'', ''f'']] =
     Inr ([([], Dir True True), ([''a''], Dir True True), ([''a'', ''f''], File),
           ([''p''], Dir True False), ([''p'', ''q''], Dir True True)],
          1,
          [''Error deleting /p/q: PermissionError'',
           ''Path does not exist or is not a directory: /a/f'',
           ''Folder not empty, skipping: /a'',
           ''Path does not exist or is not a directory: /zz''])"
    by code_simp
  then show ?thesis
    using delete_empty_folders_batch
      [of "[[''a''], [''p'', ''q''], [''a'', ''b''], [''zz''], [''a'', ''f'']]" fs_ro]
    by blast
qed

theorem delete_empty_folders_accounts_witness:
  "delete_empty_folders fs_ro [[''a''], [''p'', ''q''], [''a'', ''b'']] =
     Inr ([([], Dir True True), ([''a''], Dir True True), ([''a'', ''f''], File),
           ([''p''], Dir True False), ([''p'', ''q''], Dir True True)],
          1,
          [''Error deleting /p/q: PermissionError'', ''Folder not empty, skipping: /a''])
   \<and> (\<exists>fs' success_count errors.
     delete_empty_folders fs_ro [[''a''], [''p'', ''q''], [''a'', ''b'']] = Inr (fs', success_count, errors)
     \<and> success_count + length errors = 3)"
proof -
  have "delete_empty_folders fs_ro [[''a''], [''p'', ''q''], [''a'', ''b'']] =
     Inr ([([], Dir True True), ([''a''], Dir True True), ([''a'', ''f''], File),
           ([''p''], Dir True False), ([''p'', ''q''], Dir True True)],
          1,
          [''Error deleting /p/q: PermissionError'', ''Folder not empty, skipping: /a''])"
    by code_simp
  then show ?thesis
    using delete_empty_folders_accounts [of fs_ro "[[''a''], [''p'', ''q''], [''a'', ''b'']]"]
    by simp
qed

lemma delete_one_effect:
  "\<exists>fs' st'. delete_one (fs, st) x = Inr (fs', st')
     \<and> (fs' = fs \<or> (is_dir fs x \<and> children fs x = [] \<and> fs' = AList.delete x fs))"
proof -
  obtain n errs where st: "st = (n, errs)" by (cases st)
  from delete_one_step [of fs x n errs] show ?thesis
    unfolding st by (auto simp: rmdir_Inr_iff)
qed

text \<open>
  Over the whole batch: nothing is created or changed, and whatever the batch removes is
  a directory of the input of which no entry is left.
\<close>

lemma delete_empty_folders_removes_only_empty:
  "\<exists>fs' n errs. delete_empty_folders fs folder_paths = Inr (fs', n, errs)
     \<and> (\<forall>q. exists fs' q \<longrightarrow> map_of fs' q = map_of fs q)
     \<and> (\<forall>q. exists fs q \<and> \<not> exists fs' q \<longrightarrow>
            q \<in> set folder_paths \<and> is_dir fs q \<and> children fs' q = [])"
proof -
  have "set (sorted_deepest_first folder_paths) = set folder_paths"
    by (simp add: sorted_deepest_first_def)
  with removal_loop_only_empty [of delete_one fs "(0, [])" "sorted_deepest_first folder_paths",
      OF delete_one_effect]
  show ?thesis by (auto simp: delete_empty_folders_def)
qed

section \<open>The replication of a folder structure\<close>

lemma os_mkdir_os_error: "os_mkdir fs p = Inl e \<Longrightarrow> is_os_error e"
  by (auto simp: os_mkdir_def split: option.splits kind.splits if_splits)

lemma mkdir_exist_ok_os_error: "mkdir_exist_ok fs p = Inl e \<Longrightarrow> is_os_error e"
  by (auto simp: mkdir_exist_ok_def split: sum.splits if_splits dest: os_mkdir_os_error)

lemma mkdir_parents_os_error: "mkdir_parents fs p = Inl e \<Longrightarrow> is_os_error e"
proof (induction fs p arbitrary: e rule: mkdir_parents.induct)
  case (1 fs p)
  from "1.prems" show ?case
    by (auto simp: mkdir_parents.simps [of fs p] split: sum.splits if_splits
        dest: os_mkdir_os_error mkdir_exist_ok_os_error "1.IH")
qed

text \<open>
  Claim C7. If creating the destination root (with its missing ancestors) fails, then
  \<open>create_folder_structure\<close> returns at once: the filesystem is unchanged, no source
  directory is attempted, the success count is 0 and the error list holds exactly the
  one message about the destination root.
\<close>

theorem create_folder_structure_root_failure:
  assumes "mkdir_parents fs destination_root = Inl e"
  shows "create_folder_structure fs source_paths destination_root =
           Inr (fs, 0,
                [''Cannot create destination root '' @ path_str destination_root @ '': '' @ exn_str e])"
  using assms mkdir_parents_os_error [OF assms] by (simp add: create_folder_structure_def)

theorem create_folder_structure_root_failure_witness:
  "mkdir_parents fs_src [''ro'', ''dst''] = Inl PermissionError
   \<and> create_folder_structure fs_src [[''a'', ''b''], [''a'', ''b'', ''c'']] [''ro'', ''dst''] =
       Inr (fs_src, 0, [''Cannot create destination root /ro/dst: PermissionError''])"
proof -
  have 1: "mkdir_parents fs_src [''ro'', ''dst''] = Inl PermissionError"
    by code_simp
  from create_folder_structure_root_failure [OF 1, of "[[''a'', ''b''], [''a'', ''b'', ''c'']]"] 1
  show ?thesis by (simp add: path_str_def)
qed

text \<open>
  Claim C6 says that, once the destination root is created, every failure for a single
  source path is recorded as an error of that item and the batch goes on, also for a
  source path that does not lie under the parent of the first source path. For such a
  path \<^verbatim>\<open>relative_to\<close> raises \<^verbatim>\<open>ValueError\<close>, which the handler of the loop body
  (\<^verbatim>\<open>except (PermissionError, OSError)\<close>) does not catch: the batch raises. Here the
  destination root \<^verbatim>\<open>/dst\<close> is created, \<^verbatim>\<open>/a/b\<close> is the first source path and \<^verbatim>\<open>/c/d\<close>
  is not under \<^verbatim>\<open>/a\<close>.
\<close>

theorem create_folder_structure_raises:
  "mkdir_parents fs_src [''dst''] = Inr (fs_src @ [([''dst''], Dir True True)])
   \<and> create_folder_structure fs_src [[''a'', ''b''], [''c'', ''d'']] [''dst''] = Inl ValueError"
  by code_simp

text \<open>
  When every source path lies under the parent of the first one, as for the output of
  \<open>scan_folder_structure\<close>, the batch never raises and accounts for every source path.
\<close>

lemma create_one_step:
  assumes "prefix (parent (hd source_paths)) p"
  shows "\<exists>fs' n' errs'. create_one source_paths dst (fs, n, errs) p = Inr (fs', n', errs')
           \<and> n' + length errs' = n + length errs + 1"
  using assms
  by (auto simp: create_one_def destination_for_def relative_to_def try_except_os_def
      split: sum.splits dest: mkdir_parents_os_error)

lemma create_loop_total:
  assumes "\<forall>p \<in> set qs. prefix (parent (hd source_paths)) p"
  shows "\<exists>fs' n' errs'. for_each (create_one source_paths dst) (fs, n, errs) qs = Inr (fs', n', errs')
      \<and> n' + length errs' = n + length errs + length qs"
  using assms
proof (induction qs arbitrary: fs n errs)
  case Nil
  show ?case by simp
next
  case (Cons q qs)
  then have "prefix (parent (hd source_paths)) q" by simp
  from create_one_step [OF this, of dst fs n errs]
  obtain fs1 n1 errs1 where 1: "create_one source_paths dst (fs, n, errs) q = Inr (fs1, n1, errs1)"
    and 2: "n1 + length errs1 = n + length errs + 1"
    by auto
  from Cons.IH [of fs1 n1 errs1] Cons.prems 1 2 show ?case by auto
qed

lemma create_folder_structure_under_first_parent:
  assumes "\<forall>p \<in> set source_paths. prefix (parent (hd source_paths)) p"
    and "mkdir_parents fs destination_root = Inr fs1"
  shows "\<exists>fs' n errs. create_folder_structure fs source_paths destination_root = Inr (fs', n, errs)
           \<and> n + length errs = length source_paths"
proof -
  have "\<forall>p \<in> set (sorted_shallowest_first source_paths). prefix (parent (hd source_paths)) p"
    using assms(1) by (simp add: sorted_shallowest_first_def)
  from create_loop_total [OF this, of destination_root fs1 0 "[]"] assms(2)
  show ?thesis by (auto simp: create_folder_structure_def sorted_shallowest_first_def)
qed

section \<open>Facts about permissions\<close>

lemma name_too_long_child:
  assumes "exists fs p" "\<not> exists fs (p @ [x])"
  shows "name_too_long fs (p @ [x]) \<longleftrightarrow> is_dir fs p \<and> 255 < length x"
proof -
  have "prefixes p = butlast (prefixes p) @ [p]"
    using append_butlast_last_id [of "prefixes p"] by simp
  then have "filter (exists fs) (prefixes p) = filter (exists fs) (butlast (prefixes p)) @ [p]"
    using assms(1) by (metis filter.simps(1) filter.simps(2) filter_append)
  then have "rev (filter (exists fs) (prefixes (p @ [x])))
      = p # rev (filter (exists fs) (butlast (prefixes p)))"
    using assms(2) by simp
  then show ?thesis by (simp add: name_too_long_def)
qed

lemma reach_error_existing:
  "\<not> blocked locked p \<Longrightarrow> exists fs p \<Longrightarrow> reach_error fs locked p = None"
  by (simp add: reach_error_def)

lemma reach_error_os_error: "reach_error fs locked p = Some e \<Longrightarrow> is_os_error e"
  by (auto simp: reach_error_def split: if_splits)

lemma os_stat_existing:
  "\<not> blocked locked p \<Longrightarrow> exists fs p \<Longrightarrow> os_stat fs locked p = Inr (map_of fs p)"
  by (simp add: os_stat_def reach_error_existing)

lemma os_stat_Inr: "os_stat fs locked p = Inr k \<Longrightarrow> k = map_of fs p"
  by (auto simp: os_stat_def split: option.splits)

lemma os_stat_os_error: "os_stat fs locked p = Inl e \<Longrightarrow> is_os_error e"
  by (auto simp: os_stat_def dest: reach_error_os_error split: option.splits)



lemma try_is_file_existing:
  "\<not> blocked locked p \<Longrightarrow> exists fs p \<Longrightarrow> try_is_file fs locked p = Inr (is_file fs p)"
  by (auto simp: try_is_file_def os_stat_existing is_file_def exists_def split: kind.splits)

lemma try_exists_Inr: "try_exists fs locked p = Inr b \<Longrightarrow> b = exists fs p"
  by (auto simp: try_exists_def os_stat_def exists_def split: option.splits)

lemma try_is_dir_Inr: "try_is_dir fs locked p = Inr b \<Longrightarrow> b = is_dir fs p"
  by (auto simp: try_is_dir_def os_stat_def is_dir_def split: option.splits kind.splits)

lemma try_is_file_Inr: "try_is_file fs locked p = Inr b \<Longrightarrow> b = is_file fs p"
  by (auto simp: try_is_file_def os_stat_def is_file_def split: option.splits kind.splits)

lemma try_exists_os_error: "try_exists fs locked p = Inl e \<Longrightarrow> is_os_error e"
  by (auto simp: try_exists_def dest: os_stat_os_error split: sum.splits)

lemma try_is_dir_os_error: "try_is_dir fs locked p = Inl e \<Longrightarrow> is_os_error e"
  by (auto simp: try_is_dir_def dest: os_stat_os_error split: sum.splits)

lemma try_is_file_os_error: "try_is_file fs locked p = Inl e \<Longrightarrow> is_os_error e"
  by (auto simp: try_is_file_def dest: os_stat_os_error split: sum.splits)




lemma collect_os_error:
  "\<forall>x e. test x = Inl e \<longrightarrow> is_os_error e \<Longrightarrow> collect test acc xs = Inl (e, ys) \<Longrightarrow>
   is_os_error e"
  by (induction xs arbitrary: acc) (auto split: sum.splits)

section \<open>The scan of a folder structure\<close>


lemma searchable_below: "searchable locked p \<Longrightarrow> prefix p c \<Longrightarrow> searchable locked c"
  by (auto simp: searchable_def list_all_iff dest: prefix_order.trans prefix_same_cases)











text \<open>
  When a directory below the source can be listed but not searched, asking for the
  status of one of its entries raises. The handler ends the scan with the directories
  found so far, and the source is not among them: here \<^verbatim>\<open>/s/u\<close> may not be searched.
  The amended claim says nothing of this case.
\<close>

lemma scan_folder_structure_unsearchable:
  "scan_folder_structure fs_tree [[''s'', ''u'']] [''s''] = Inr [[''s'', ''u''], [''s'', ''w'']]"
  by code_simp

section \<open>The validation of a path string\<close>

text \<open>
  The resolution of a path without \<^verbatim>\<open>..\<close> leads to the entry it spells, when every
  directory on the way exists and may be searched.
\<close>

lemma walk_plain:
  assumes "\<forall>k \<le> length segs. exists fs (cur @ take k segs)"
    and "\<forall>k < length segs. is_dir fs (cur @ take k segs) \<and> cur @ take k segs \<notin> set locked"
    and "''..'' \<notin> set segs"
  shows "walk fs locked cur segs = Inr (cur @ segs)"
  using assms
proof (induction segs arbitrary: cur)
  case Nil
  then show ?case by simp
next
  case (Cons seg segs)
  from Cons.prems(1) [rule_format, of 0] have e: "exists fs cur" by simp
  from Cons.prems(2) [rule_format, of 0] have d: "is_dir fs cur" "cur \<notin> set locked" by simp_all
  from Cons.prems(1) [rule_format, of 1] have e1: "exists fs (cur @ [seg])" by simp
  have "walk fs locked (cur @ [seg]) segs = Inr ((cur @ [seg]) @ segs)"
  proof (rule Cons.IH)
    show "\<forall>k \<le> length segs. exists fs ((cur @ [seg]) @ take k segs)"
      using Cons.prems(1) [rule_format, of "Suc k" for k] by simp
    show "\<forall>k < length segs. is_dir fs ((cur @ [seg]) @ take k segs)
        \<and> (cur @ [seg]) @ take k segs \<notin> set locked"
      using Cons.prems(2) [rule_format, of "Suc k" for k] by simp
    show "''..'' \<notin> set segs" using Cons.prems(3) by simp
  qed
  moreover from Cons.prems(3) have "seg \<noteq> ''..''" by auto
  ultimately show ?case using e d e1 by (simp del: append_assoc)
qed

text \<open>
  \<open>validate_path\<close> returns its verdict and never a new filesystem: it has no effect.

  Claim C8, as amended. For an empty or whitespace-only string \<open>validate_path\<close> fails with
  the empty-input error. Otherwise the operating system resolves the path object of the
  stripped string. When the resolution finds nothing (a component is missing, lies in
  something that is not a directory, or cannot be encoded) \<open>validate_path\<close> fails with
  the not-found error; when the resolution fails for another reason (a directory on the
  way may not be searched, or a name is too long) it fails with the invalid-path error
  and returns the empty path object; when the resolution finds something other than a
  directory it fails with the not-a-directory error; and when it finds a directory
  \<open>validate_path\<close> succeeds. The path returned with the not-found error, the
  not-a-directory error and success is the path object of the stripped string as
  written, relative if the string is relative and with its \<^verbatim>\<open>..\<close> components: it is not
  brought to canonical form.
\<close>

theorem validate_path_result:
  "(strip path_string = [] \<longrightarrow>
      validate_path fs locked cwd path_string = (False, ''Path cannot be empty'', Path []))
   \<and> (\<forall>e. strip path_string \<noteq> []
          \<and> locate fs locked cwd (Path (strip path_string)) = Inl e \<and> ignore_error e \<longrightarrow>
      validate_path fs locked cwd path_string =
        (False, ''Path does not exist'', Path (strip path_string)))
   \<and> (\<forall>e. strip path_string \<noteq> []
          \<and> locate fs locked cwd (Path (strip path_string)) = Inl e \<and> \<not> ignore_error e \<longrightarrow>
      validate_path fs locked cwd path_string =
        (False, ''Invalid path: '' @ exn_str e, Path []))
   \<and> (\<forall>q. strip path_string \<noteq> []
          \<and> locate fs locked cwd (Path (strip path_string)) = Inr q \<and> \<not> is_dir fs q \<longrightarrow>
      validate_path fs locked cwd path_string =
        (False, ''Path is not a directory'', Path (strip path_string)))
   \<and> (\<forall>q. strip path_string \<noteq> []
          \<and> locate fs locked cwd (Path (strip path_string)) = Inr q \<and> is_dir fs q \<longrightarrow>
      validate_path fs locked cwd path_string = (True, [], Path (strip path_string)))"
proof -
  have "path_string = [] \<Longrightarrow> strip path_string = []" by (simp add: strip_def)
  then show ?thesis
    by (auto simp: validate_path_def path_exists_def path_is_dir_def Let_def)
qed

theorem validate_path_result_witness:
  "strip [0x20, 0xA0, 0x3000] = []
   \<and> validate_path fs_home [[''home'', ''docs'']] [''home''] [0x20, 0xA0, 0x3000] =
       (False, ''Path cannot be empty'', Path [])
   \<and> strip (literal ''nothing'') \<noteq> []
   \<and> locate fs_home [[''home'', ''docs'']] [''home''] (Path (strip (literal ''nothing'')))
       = Inl FileNotFoundError
   \<and> ignore_error FileNotFoundError
   \<and> validate_path fs_home [[''home'', ''docs'']] [''home''] (literal ''nothing'') =
       (False, ''Path does not exist'', Path (literal ''nothing''))
   \<and> locate fs_home [[''home'', ''docs'']] [''home''] (Path (strip (literal ''docs/x'')))
       = Inl PermissionError
   \<and> \<not> ignore_error PermissionError
   \<and> validate_path fs_home [[''home'', ''docs'']] [''home''] (literal ''docs/x'') =
       (False, ''Invalid path: PermissionError'', Path [])
   \<and> locate fs_home [[''home'', ''docs'']] [''home''] (Path (strip (literal ''notes.txt'')))
       = Inr [''home'', ''notes.txt'']
   \<and> \<not> is_dir fs_home [''home'', ''notes.txt'']
   \<and> validate_path fs_home [[''home'', ''docs'']] [''home''] (literal ''notes.txt'') =
       (False, ''Path is not a directory'', Path (literal ''notes.txt''))
   \<and> locate fs_home [[''home'', ''docs'']] [''home''] (Path (strip (literal '' /home/docs'')))
       = Inr [''home'', ''docs'']
   \<and> is_dir fs_home [''home'', ''docs'']
   \<and> validate_path fs_home [[''home'', ''docs'']] [''home''] (literal '' /home/docs'') =
       (True, [], Path (literal ''/home/docs''))"
proof -
  let ?l = "[[''home'', ''docs'']]" and ?c = "[''home'']"
  have 1: "strip [0x20, 0xA0, 0x3000] = []" by code_simp
  have 2: "strip (literal ''nothing'') = literal ''nothing''" "literal ''nothing'' \<noteq> []"
    by code_simp+
  have 3: "locate fs_home ?l ?c (Path (literal ''nothing'')) = Inl FileNotFoundError"
    by code_simp
  have 4: "strip (literal ''docs/x'') = literal ''docs/x''" "literal ''docs/x'' \<noteq> []"
    by code_simp+
  have 5: "locate fs_home ?l ?c (Path (literal ''docs/x'')) = Inl PermissionError"
    by code_simp
  have 6: "strip (literal ''notes.txt'') = literal ''notes.txt''" "literal ''notes.txt'' \<noteq> []"
    by code_simp+
  have 7: "locate fs_home ?l ?c (Path (literal ''notes.txt'')) = Inr [''home'', ''notes.txt'']"
    by code_simp
  have 8: "\<not> is_dir fs_home [''home'', ''notes.txt'']" by code_simp
  have 9: "strip (literal '' /home/docs'') = literal ''/home/docs''" "literal ''/home/docs'' \<noteq> []"
    by code_simp+
  have 10: "locate fs_home ?l ?c (Path (literal ''/home/docs'')) = Inr [''home'', ''docs'']"
    by code_simp
  have 11: "is_dir fs_home [''home'', ''docs'']" by code_simp
  have 12: "ignore_error FileNotFoundError" "\<not> ignore_error PermissionError"
    by (simp_all add: ignore_error_def)
  have a: "validate_path fs_home ?l ?c [0x20, 0xA0, 0x3000] =
       (False, ''Path cannot be empty'', Path [])"
    using validate_path_result [of "[0x20, 0xA0, 0x3000]" fs_home ?l ?c] 1 by blast
  have b: "validate_path fs_home ?l ?c (literal ''nothing'') =
       (False, ''Path does not exist'', Path (literal ''nothing''))"
    using validate_path_result [of "literal ''nothing''" fs_home ?l ?c] 3 12
    unfolding 2(1) using 2(2) by blast
  have c: "validate_path fs_home ?l ?c (literal ''docs/x'') =
       (False, ''Invalid path: '' @ exn_str PermissionError, Path [])"
    using validate_path_result [of "literal ''docs/x''" fs_home ?l ?c] 5 12
    unfolding 4(1) using 4(2) by blast
  have d: "validate_path fs_home ?l ?c (literal ''notes.txt'') =
       (False, ''Path is not a directory'', Path (literal ''notes.txt''))"
    using validate_path_result [of "literal ''notes.txt''" fs_home ?l ?c] 7 8
    unfolding 6(1) using 6(2) by blast
  have e: "validate_path fs_home ?l ?c (literal '' /home/docs'') =
       (True, [], Path (literal ''/home/docs''))"
    using validate_path_result [of "literal '' /home/docs''" fs_home ?l ?c] 10 11
    unfolding 9(1) using 9(2) by blast
  from c have c': "validate_path fs_home ?l ?c (literal ''docs/x'') =
       (False, ''Invalid path: PermissionError'', Path [])" by simp
  show ?thesis
    unfolding 2(1) 4(1) 6(1) 9(1)
    using 1 2(2) 3 4(2) 5 6(2) 7 8 9(2) 10 11 12 a b c' d e by (intro conjI)
qed

text \<open>
  Claim C8 as stated says that the returned path is the canonical (resolved, absolute)
  form of the input. From the working directory \<^verbatim>\<open>/home\<close> the input \<^verbatim>\<open>docs\<close> names the
  directory \<^verbatim>\<open>/home/docs\<close>; \<open>validate_path\<close> succeeds and returns the relative path
  \<^verbatim>\<open>docs\<close>, which is not its canonical form: that is \<^verbatim>\<open>/home/docs\<close>.
\<close>

theorem validate_path_counterexample:
  "validate_path fs_home [] [''home''] (literal ''docs'') =
     (True, [], PurePath [] [literal ''docs''])
   \<and> canonical fs_home [] [''home''] (Path (strip (literal ''docs'')))
        (PurePath ''/'' [literal ''home'', literal ''docs''])
   \<and> \<not> canonical fs_home [] [''home''] (Path (strip (literal ''docs'')))
        (snd (snd (validate_path fs_home [] [''home''] (literal ''docs''))))"
proof -
  have 1: "validate_path fs_home [] [''home''] (literal ''docs'') =
     (True, [], PurePath [] [literal ''docs''])"
    by code_simp
  have 2: "canonical fs_home [] [''home''] (Path (strip (literal ''docs'')))
        (PurePath ''/'' [literal ''home'', literal ''docs''])"
    by code_simp
  have 3: "\<not> canonical fs_home [] [''home''] (Path (strip (literal ''docs'')))
        (PurePath [] [literal ''docs''])"
    by code_simp
  from 1 2 3 show ?thesis by simp
qed

text \<open>
  Other inputs on which the outcome is the invalid-path error or the not-found error:
  a name of 256 bytes, which names nothing; and a name that holds the code point 0.
\<close>

lemma validate_path_name_too_long:
  "validate_path fs_home [] [''home''] (replicate 256 0x78) =
     (False, ''Invalid path: OSError'', Path [])"
  by code_simp

lemma validate_path_embedded_null:
  "validate_path fs_home [] [''home''] [0x61, 0, 0x62] =
     (False, ''Path does not exist'', Path [0x61, 0, 0x62])"
  by code_simp

end
